theory Spec2Isabelle
  imports Complex_Main
begin

section \<open>Floating-point values\<close>

text \<open>
  The backend computes with IEEE double values inside pandas and numpy. A value is either
  finite, one of the two infinities, or not-a-number. Finite values are modelled by exact
  reals: rounding, overflow of finite results and the sign of zero are not modelled (a zero
  divisor counts as positive zero). The special values follow the IEEE rules that numpy
  applies without raising: \<open>x / 0\<close> is an infinity for \<open>x \<noteq> 0\<close>, \<open>0 / 0\<close> and
  \<open>inf - inf\<close> are NaN, and every comparison with NaN is false.
\<close>

datatype pyfloat = Fin real | PInf | NInf | NaN

fun isnan :: "pyfloat \<Rightarrow> bool" where
  "isnan NaN = True"
| "isnan _ = False"


text \<open>Sign of a non-NaN value, and the infinity (or NaN for sign 0) carrying a sign.\<close>

fun pf_sign :: "pyfloat \<Rightarrow> real" where
  "pf_sign (Fin a) = sgn a"
| "pf_sign PInf = 1"
| "pf_sign NInf = - 1"
| "pf_sign NaN = 0"

definition inf_of_sign :: "real \<Rightarrow> pyfloat" where
  "inf_of_sign s = (if s > 0 then PInf else if s < 0 then NInf else NaN)"

fun pf_neg :: "pyfloat \<Rightarrow> pyfloat" where
  "pf_neg (Fin a) = Fin (- a)"
| "pf_neg PInf = NInf"
| "pf_neg NInf = PInf"
| "pf_neg NaN = NaN"

fun pf_add :: "pyfloat \<Rightarrow> pyfloat \<Rightarrow> pyfloat" where
  "pf_add NaN _ = NaN"
| "pf_add _ NaN = NaN"
| "pf_add (Fin a) (Fin b) = Fin (a + b)"
| "pf_add (Fin a) y = y"
| "pf_add x (Fin b) = x"
| "pf_add PInf PInf = PInf"
| "pf_add NInf NInf = NInf"
| "pf_add PInf NInf = NaN"
| "pf_add NInf PInf = NaN"

definition pf_sub :: "pyfloat \<Rightarrow> pyfloat \<Rightarrow> pyfloat" where
  "pf_sub x y = pf_add x (pf_neg y)"

fun pf_mul :: "pyfloat \<Rightarrow> pyfloat \<Rightarrow> pyfloat" where
  "pf_mul NaN _ = NaN"
| "pf_mul _ NaN = NaN"
| "pf_mul (Fin a) (Fin b) = Fin (a * b)"
| "pf_mul x y = inf_of_sign (pf_sign x * pf_sign y)"

fun pf_div :: "pyfloat \<Rightarrow> pyfloat \<Rightarrow> pyfloat" where
  "pf_div NaN _ = NaN"
| "pf_div _ NaN = NaN"
| "pf_div (Fin a) (Fin b) = (if b = 0 then inf_of_sign (sgn a) else Fin (a / b))"
| "pf_div (Fin a) y = Fin 0"
| "pf_div x (Fin b) = inf_of_sign (pf_sign x * (if b < 0 then - 1 else 1))"
| "pf_div x y = NaN"

fun pf_sqrt :: "pyfloat \<Rightarrow> pyfloat" where
  "pf_sqrt (Fin a) = (if a < 0 then NaN else Fin (sqrt a))"
| "pf_sqrt PInf = PInf"
| "pf_sqrt NInf = NaN"
| "pf_sqrt NaN = NaN"

text \<open>\<open>pf_gt x y\<close> is the comparison \<open>x > y\<close>; it is false as soon as one side is NaN.\<close>

fun pf_gt :: "pyfloat \<Rightarrow> pyfloat \<Rightarrow> bool" where
  "pf_gt NaN _ = False"
| "pf_gt _ NaN = False"
| "pf_gt (Fin a) (Fin b) = (a > b)"
| "pf_gt PInf PInf = False"
| "pf_gt PInf _ = True"
| "pf_gt NInf _ = False"
| "pf_gt (Fin a) NInf = True"
| "pf_gt (Fin a) PInf = False"

section \<open>Risk classification (backend.py, \<open>get_risk_level\<close>)\<close>

text \<open>
  The labels end in an emoji; the strings below hold the UTF-8 bytes of the source text.
\<close>

definition EXTREME :: string where
  "EXTREME = ''EXTREME '' @ [CHR 0xE2, CHR 0x98, CHR 0xA2, CHR 0xEF, CHR 0xB8, CHR 0x8F]"

definition HIGH :: string where
  "HIGH = ''HIGH '' @ [CHR 0xF0, CHR 0x9F, CHR 0x94, CHR 0xA5]"

definition MODERATE :: string where
  "MODERATE = ''MODERATE '' @ [CHR 0xE2, CHR 0x9A, CHR 0x96, CHR 0xEF, CHR 0xB8, CHR 0x8F]"

definition LOW :: string where
  "LOW = ''LOW '' @ [CHR 0xF0, CHR 0x9F, CHR 0x9B, CHR 0xA1, CHR 0xEF, CHR 0xB8, CHR 0x8F]"

text \<open>Returns the pair (colour, label), as the source does.\<close>

definition get_risk_level :: "pyfloat \<Rightarrow> string \<times> string" where
  "get_risk_level vol =
     (if pf_gt vol (Fin 100) then (''#ff2b2b'', EXTREME)
      else if pf_gt vol (Fin 60) then (''#ff9f1c'', HIGH)
      else if pf_gt vol (Fin 30) then (''#fbd400'', MODERATE)
      else (''#2ec4b6'', LOW))"

section \<open>The pandas column operations used by the backend\<close>

text \<open>
  A column (a pandas Series of floats) is a list of values. Only the operations that
  \<open>fetch_and_analyze_data\<close> calls are modelled, each with the library's default
  arguments: missing values (NaN) are skipped by the reductions \<open>std\<close> and \<open>min\<close> and
  by \<open>cummax\<close>, infinities are ordinary values.
\<close>

text \<open>\<open>Series.shift(1)\<close>: every value moves one position down, the first becomes NaN.\<close>

definition shift :: "pyfloat list \<Rightarrow> pyfloat list" where
  "shift xs = (if xs = [] then [] else NaN # butlast xs)"

text \<open>
  \<open>Series.pct_change()\<close> computes \<open>data / data.shift(1) - 1\<close>. (Its forward fill of
  missing values does nothing here: the price column holds no NaN.)
\<close>

definition pct_change :: "pyfloat list \<Rightarrow> pyfloat list" where
  "pct_change xs = map (\<lambda>(x, s). pf_sub (pf_div x s) (Fin 1)) (zip xs (shift xs))"

text \<open>
  \<open>Series.cummax()\<close>: the running maximum; a NaN entry stays NaN and does not take part
  in the maximum. The first argument is the maximum so far, if any.
\<close>

fun cummax_from :: "pyfloat option \<Rightarrow> pyfloat list \<Rightarrow> pyfloat list" where
  "cummax_from m [] = []"
| "cummax_from m (x # xs) =
     (if isnan x then NaN # cummax_from m xs
      else (let m' = (case m of None \<Rightarrow> x | Some y \<Rightarrow> if pf_gt x y then x else y)
            in m' # cummax_from (Some m') xs))"

definition cummax :: "pyfloat list \<Rightarrow> pyfloat list" where
  "cummax xs = cummax_from None xs"

text \<open>The values of a column that are not NaN (what the skipping reductions see).\<close>

definition dropna :: "pyfloat list \<Rightarrow> pyfloat list" where
  "dropna xs = filter (\<lambda>x. \<not> isnan x) xs"

text \<open>\<open>Series.min()\<close>: the least value that is not NaN; NaN when there is none.\<close>

definition series_min :: "pyfloat list \<Rightarrow> pyfloat" where
  "series_min xs =
     (case dropna xs of
        [] \<Rightarrow> NaN
      | y # ys \<Rightarrow> foldl (\<lambda>a b. if pf_gt a b then b else a) y ys)"

definition pf_sum :: "pyfloat list \<Rightarrow> pyfloat" where
  "pf_sum xs = foldl pf_add (Fin 0) xs"

text \<open>
  \<open>Series.std()\<close> with its defaults \<open>ddof = 1\<close> and \<open>skipna = True\<close>: with \<open>count\<close> the
  number of values that are not NaN, the result is NaN when \<open>count \<le> ddof\<close>; otherwise
  the mean is the sum over \<open>count\<close>, and the result is the square root of the sum of the
  squared deviations from the mean over \<open>count - ddof\<close>.
\<close>

definition series_var :: "nat \<Rightarrow> pyfloat list \<Rightarrow> pyfloat" where
  "series_var ddof xs =
     (let vs = dropna xs; count = length vs in
      if count \<le> ddof then NaN
      else (let avg = pf_div (pf_sum vs) (Fin (real count));
                sqr = map (\<lambda>v. pf_mul (pf_sub avg v) (pf_sub avg v)) vs
            in pf_div (pf_sum sqr) (Fin (real (count - ddof)))))"

definition series_std :: "pyfloat list \<Rightarrow> pyfloat" where
  "series_std xs = pf_sqrt (series_var 1 xs)"

text \<open>\<open>Series.fillna(v)\<close>: NaN entries are replaced by \<open>v\<close>; every other value is kept.\<close>

definition fillna :: "pyfloat \<Rightarrow> pyfloat list \<Rightarrow> pyfloat list" where
  "fillna v xs = map (\<lambda>x. if isnan x then v else x) xs"

section \<open>The analysis (backend.py, \<open>fetch_and_analyze_data\<close>)\<close>

text \<open>
  The dictionary that the analysis returns; its keys and value types are those of the
  response model \<open>MarketDataResponse\<close>.
\<close>

record MarketDataResponse =
  prices :: "pyfloat list"
  current_price :: pyfloat
  volatility :: pyfloat
  max_drawdown :: pyfloat
  risk_level :: string
  risk_color :: string
  daily_returns :: "pyfloat list"
  timestamps :: "int list"

text \<open>
  The exceptions that can travel through the backend: the \<open>IndexError\<close> of
  \<open>iloc[-1]\<close> on an empty column, a failure of the upstream request (network, malformed
  body), and FastAPI's \<open>HTTPException\<close> with its status code. All are subclasses of
  Python's \<open>Exception\<close>. Their message texts are not modelled.
\<close>

datatype exn = IndexError | UpstreamError | HTTPException nat

text \<open>
  A sample is a pair of a timestamp in milliseconds and a finite price, as the upstream
  JSON gives it. Timestamps are unbounded integers: the range of pandas' 64-bit
  nanosecond timestamps is not modelled.
\<close>

type_synonym sample = "int \<times> real"

text \<open>The drawdown column \<open>(price - price.cummax()) / price.cummax() * 100\<close>.\<close>

definition drawdowns :: "pyfloat list \<Rightarrow> pyfloat list" where
  "drawdowns price =
     map (\<lambda>(p, c). pf_mul (pf_div (pf_sub p c) c) (Fin 100)) (zip price (cummax price))"

text \<open>The column \<open>df['daily_return'] = df['price'].pct_change() * 100\<close>.\<close>

definition daily_return :: "pyfloat list \<Rightarrow> pyfloat list" where
  "daily_return price = map (\<lambda>r. pf_mul r (Fin 100)) (pct_change price)"

text \<open>
  Lines 45 to 77: from the list under the key \<open>prices\<close> to the returned dictionary.
  \<open>iloc[-1]\<close> raises \<open>IndexError\<close> on an empty frame. The index holds the timestamps
  as datetimes; \<open>astype('int64')\<close> reads them back in nanoseconds.
\<close>

definition analyze :: "sample list \<Rightarrow> exn + MarketDataResponse" where
  "analyze samples =
     (let price = map (\<lambda>s. Fin (snd s)) samples;
          index = map (\<lambda>s. fst s * 1000000) samples;
          ret = daily_return price
      in if price = [] then Inl IndexError
         else
          (let cur = last price;
               (vol0, mdd0) =
                 (if length price < 2 then (Fin 0, Fin 0)
                  else (pf_mul (series_std ret) (Fin (sqrt 365)),
                        series_min (drawdowns price)));
               vol = (if isnan vol0 then Fin 0 else vol0);
               mdd = (if isnan mdd0 then Fin 0 else mdd0);
               (color, level) = get_risk_level vol
           in Inr \<lparr> prices = price, current_price = cur, volatility = vol,
                    max_drawdown = mdd, risk_level = level, risk_color = color,
                    daily_returns = fillna (Fin 0) ret, timestamps = index \<rparr>))"

text \<open>
  What the request to the upstream service produced: an exception (the request or the
  decoding of its body failed), or a JSON object, of which only the entry under the key
  \<open>prices\<close> matters: \<open>None\<close> when the key is absent.
\<close>

datatype upstream = Failed | Json "sample list option"

text \<open>
  Standard output is the only state outside the function that the backend touches: each
  \<open>print\<close> appends a line. A line records which handler printed and the exception.
\<close>

datatype line = Error_in_calculation exn | Error exn

text \<open>
  \<open>fetch_and_analyze_data\<close>: the result is \<open>None\<close> when the key \<open>prices\<close> is absent,
  the dictionary otherwise; an exception raised in the body is printed and raised again.
\<close>

definition fetch_and_analyze_data ::
  "upstream \<Rightarrow> line list \<Rightarrow> (exn + MarketDataResponse option) \<times> line list" where
  "fetch_and_analyze_data up out =
     (let body = (case up of
                    Failed \<Rightarrow> Inl UpstreamError
                  | Json None \<Rightarrow> Inr None
                  | Json (Some ps) \<Rightarrow>
                      (case analyze ps of Inl e \<Rightarrow> Inl e | Inr m \<Rightarrow> Inr (Some m)))
      in case body of
           Inl e \<Rightarrow> (Inl e, out @ [Error_in_calculation e])
         | Inr r \<Rightarrow> (Inr r, out))"

text \<open>
  The endpoint \<open>POST /analyze\<close> (\<open>analyze_market\<close>). \<open>Inr m\<close> is the response 200 with
  body \<open>m\<close>; \<open>Inl (HTTPException c)\<close> is the error response with status \<open>c\<close>. The
  \<open>raise HTTPException(status_code=404)\<close> stands inside the \<open>try\<close> block, and the
  handler \<open>except Exception\<close> catches every exception raised there.
\<close>

definition analyze_market ::
  "upstream \<Rightarrow> line list \<Rightarrow> (exn + MarketDataResponse) \<times> line list" where
  "analyze_market up out =
     (let (result, out1) = fetch_and_analyze_data up out;
          body = (case result of
                    Inl e \<Rightarrow> Inl e
                  | Inr None \<Rightarrow> Inl (HTTPException 404)
                  | Inr (Some m) \<Rightarrow> Inr m)
      in case body of
           Inl e \<Rightarrow> (Inl (HTTPException 500), out1 @ [Error e])
         | Inr m \<Rightarrow> (Inr m, out1))"

section \<open>Registration (frontend.py, \<open>show_register\<close>)\<close>

text \<open>
  The session state of the dashboard; \<open>users\<close> is the dictionary from user name to
  password, which starts as \<open>{"admin": "1234"}\<close>.
\<close>

record session_state =
  logged_in :: bool
  username :: "string option"
  users :: "string \<rightharpoonup> string"
  page :: string

definition initial_session :: session_state where
  "initial_session =
     \<lparr> logged_in = False, username = None, users = [''admin'' \<mapsto> ''1234''],
       page = ''login'' \<rparr>"

text \<open>
  What a run of the registration page receives: the form submitted with its three
  fields (user name, password, confirmation), the button back to the login page, or
  nothing. The page shows at most one notice.
\<close>

datatype register_input = Register string string string | Back_to_Login | Idle

datatype notice = st_error string | st_success string

fun show_register :: "session_state \<Rightarrow> register_input \<Rightarrow> session_state \<times> notice list" where
  "show_register st (Register new_user new_pass confirm_pass) =
     (if users st new_user \<noteq> None then (st, [st_error ''Username already exists!''])
      else if new_pass \<noteq> confirm_pass then (st, [st_error ''Passwords do not match!''])
      else if new_user = [] \<or> new_pass = [] then (st, [st_error ''Please fill out all fields.''])
      else (st\<lparr>users := (users st)(new_user \<mapsto> new_pass), page := ''login''\<rparr>,
            [st_success ''Account Created! Please Login.'']))"
| "show_register st Back_to_Login = (st\<lparr>page := ''login''\<rparr>, [])"
| "show_register st Idle = (st, [])"

section \<open>Names for the intermediate values of the analysis\<close>




section \<open>The statistics in the words of the specification\<close>










section \<open>Basic facts about the analysis\<close>



lemma pf_div_NaN [simp]: "pf_div x NaN = NaN"
  by (cases x) simp_all

lemma pf_add_NaN [simp]: "pf_add x NaN = NaN"
  by (cases x) simp_all

lemma pf_mul_NaN [simp]: "pf_mul x NaN = NaN"
  by (cases x) simp_all




lemma labels_distinct: "distinct [EXTREME, HIGH, MODERATE, LOW]"
  by (simp add: EXTREME_def HIGH_def MODERATE_def LOW_def)

section \<open>Columns of finite values\<close>

text \<open>
  On a column of finite values the floating-point operations are the operations on the
  reals, as long as no divisor is 0.
\<close>

subsection \<open>Returns and the standard deviation\<close>












subsection \<open>Running peaks and drawdowns\<close>














subsection \<open>The minimum of a column\<close>





subsection \<open>The maximum drawdown of a series\<close>

















subsection \<open>The volatility of a series\<close>







subsection \<open>Evaluation at a concrete series\<close>



subsection \<open>The daily returns, position by position\<close>










section \<open>The analysis of a price series\<close>

subsection \<open>Empty input\<close>



subsection \<open>Undefined values\<close>




subsection \<open>Maximum drawdown\<close>



subsection \<open>Volatility\<close>




section \<open>Risk classification: thresholds\<close>

text \<open>
  C5: the thresholds are tried from the top with strict comparisons and the first match
  wins: a volatility above 100 is EXTREME, else above 60 is HIGH, else above 30 is
  MODERATE, else LOW. Hence each tier is exactly one interval; a volatility of exactly
  100 is HIGH and 100.0001 is EXTREME.
\<close>

theorem risk_thresholds:
  "get_risk_level (Fin x) =
     (if x > 100 then (''#ff2b2b'', EXTREME)
      else if x > 60 then (''#ff9f1c'', HIGH)
      else if x > 30 then (''#fbd400'', MODERATE)
      else (''#2ec4b6'', LOW))
   \<and> (snd (get_risk_level (Fin x)) = EXTREME) = (100 < x)
   \<and> (snd (get_risk_level (Fin x)) = HIGH) = (60 < x \<and> x \<le> 100)
   \<and> (snd (get_risk_level (Fin x)) = MODERATE) = (30 < x \<and> x \<le> 60)
   \<and> (snd (get_risk_level (Fin x)) = LOW) = (x \<le> 30)
   \<and> snd (get_risk_level (Fin 100)) = HIGH
   \<and> snd (get_risk_level (Fin 100.0001)) = EXTREME"
  using labels_distinct by (auto simp: get_risk_level_def)

section \<open>Shape and purity of the analysis\<close>





section \<open>The endpoint\<close>

text \<open>
  C8: when the response has no key \<open>prices\<close> the endpoint raises the 404 exception
  inside its own \<open>try\<close> block, whose handler turns every exception into a 500: the
  client receives status 500, and the 404 only reaches standard output.
\<close>

theorem not_found_surfaces_as_500:
  "analyze_market (Json None) out =
     (Inl (HTTPException 500), out @ [Error (HTTPException 404)])"
  by (simp add: analyze_market_def fetch_and_analyze_data_def)

section \<open>Risk classification: totality\<close>

text \<open>
  C9: the classification is total. Every volatility, the infinities and NaN included, gets
  one of the four pairs of colour and label; the four labels differ from each other and
  so do the four colours, and two results have the same colour exactly when they have the
  same label. For NaN every comparison is false and the result is the LOW tier.
\<close>

theorem risk_total:
  "get_risk_level v \<in> {(''#ff2b2b'', EXTREME), (''#ff9f1c'', HIGH),
                         (''#fbd400'', MODERATE), (''#2ec4b6'', LOW)}
   \<and> distinct [EXTREME, HIGH, MODERATE, LOW]
   \<and> distinct [''#ff2b2b'', ''#ff9f1c'', ''#fbd400'', ''#2ec4b6'']
   \<and> ((fst (get_risk_level v) = fst (get_risk_level w))
        = (snd (get_risk_level v) = snd (get_risk_level w)))
   \<and> get_risk_level NaN = (''#2ec4b6'', LOW)"
  using labels_distinct by (auto simp: get_risk_level_def)

section \<open>Registration\<close>

text \<open>
  C10: registration inserts if absent. When the user name is taken, or the two passwords
  differ, or a field is empty, the dictionary of users is unchanged; when the name is
  free, both fields are filled and the passwords agree, exactly the new entry is added;
  and whatever the page receives, the password of an existing user stays as it was.
\<close>

theorem register_insert_if_absent:
  "((users st u \<noteq> None \<or> p \<noteq> c \<or> u = [] \<or> p = []) \<longrightarrow>
       users (fst (show_register st (Register u p c))) = users st)
   \<and> ((users st u = None \<and> p = c \<and> u \<noteq> [] \<and> p \<noteq> []) \<longrightarrow>
       users (fst (show_register st (Register u p c))) = (users st)(u \<mapsto> p))
   \<and> (\<forall>name. users st name \<noteq> None \<longrightarrow>
       users (fst (show_register st inp)) name = users st name)"
  by (cases inp) auto

text \<open>
  The theorem at the initial session: registering \<open>admin\<close> again changes nothing,
  registering \<open>bob\<close> adds him and keeps the password of \<open>admin\<close>.
\<close>

theorem register_insert_if_absent_witness:
  "users initial_session ''admin'' \<noteq> None
   \<and> users (fst (show_register initial_session (Register ''admin'' ''x'' ''x'')))
       = users initial_session
   \<and> users initial_session ''bob'' = None
   \<and> users (fst (show_register initial_session (Register ''bob'' ''pw'' ''pw'')))
       = (users initial_session)(''bob'' \<mapsto> ''pw'')
   \<and> users (fst (show_register initial_session (Register ''bob'' ''pw'' ''pw''))) ''admin''
       = Some ''1234''"
  using register_insert_if_absent
          [of initial_session "''admin''" "''x''" "''x''" "Register ''bob'' ''pw'' ''pw''"]
        register_insert_if_absent
          [of initial_session "''bob''" "''pw''" "''pw''" "Register ''bob'' ''pw'' ''pw''"]
  by (simp add: initial_session_def)

end
